theory Spec2Isabelle
  imports Complex_Main
begin

section \<open>Documents, requests and responses\<close>

text \<open>
  The backend is a set of Express handlers over Mongoose models.  A handler is modelled
  as a function from the request and the stored collections to the JSON response and
  the collections after the request.  Every \<open>return res.status(..).json(..)\<close> of
  the source is one branch of the model.

  Record fields are global constants in Isabelle, and several documents of the source
  share field names (\<open>_id\<close>, \<open>user\<close>, \<open>quantity\<close>), so each field carries a
  short prefix naming its document.  Identifiers are ObjectId strings and are compared
  as strings, as \<open>item.product.toString() === productId\<close> does.  JavaScript
  numbers are modelled exactly: integers as \<open>int\<close>, prices as \<open>rat\<close>.

  A field of a request body has the type the data model gives it (a quantity is an
  integer, an identifier a string); a field that is absent is \<open>None\<close>.  A database
  call that rejects for a reason outside the program (no connection, an identifier
  that is not an ObjectId) is not modelled: the handlers answer it 500 or 400 from
  their \<open>catch\<close> blocks and change nothing.
\<close>

type_synonym oid = string

datatype json =
    JNull
  | JBool bool
  | JNum rat
  | JStr string
  | JArr "json list"
  | JObj "(string \<times> json) list"

record response =
  status :: nat
  body :: json

definition reply :: "nat \<Rightarrow> json \<Rightarrow> response" where
  "reply code b = \<lparr>status = code, body = b\<rparr>"

definition error_json :: "string \<Rightarrow> json" where
  "error_json msg = JObj [(''error'', JStr msg)]"

text \<open>models/Product.js\<close>

record product_doc =
  p_id :: oid
  p_name :: string
  p_description :: string
  p_price :: rat
  p_category :: string
  p_image :: string
  p_stock :: int
  p_createdAt :: nat
  p_updatedAt :: nat

text \<open>
  The Cart and User models are not among the sources; their shape is the one the
  controllers read and write: a cart has an owner and a list of lines, each line with
  its own \<open>_id\<close>, a product reference and a quantity.
\<close>

record cart_item =
  item_id :: oid
  item_product :: oid
  item_quantity :: int

record cart_doc =
  cart_id :: oid
  cart_user :: oid
  cart_items :: "cart_item list"

record user_doc =
  u_id :: oid
  u_username :: string
  u_password :: string
  u_role :: string

text \<open>models/Order.js (the fields the schema requires)\<close>

record order_doc =
  o_user :: oid
  o_totalAmount :: rat
  o_stripeSessionId :: string

record database =
  users :: "user_doc list"
  products :: "product_doc list"
  carts :: "cart_doc list"
  orders :: "order_doc list"

subsection \<open>JavaScript helpers\<close>

text \<open>
  Truthiness of an optional string: absent and empty are falsy.  (For a number, absent
  and 0 are falsy; the handlers below spell both tests out.)
\<close>

fun truthy_str :: "string option \<Rightarrow> bool" where
  "truthy_str None = False"
| "truthy_str (Some s) = (s \<noteq> [])"


text \<open>Decimal rendering of a number inside a template string.\<close>

definition digit_char :: "nat \<Rightarrow> char" where
  "digit_char d = ''0123456789'' ! d"

function show_nat :: "nat \<Rightarrow> string" where
  "show_nat n = (if n < 10 then [digit_char n] else show_nat (n div 10) @ [digit_char (n mod 10)])"
  by pat_completeness auto
termination
  by (relation "measure id") auto

declare show_nat.simps [simp del]

definition show_int :: "int \<Rightarrow> string" where
  "show_int i = (if i < 0 then CHR ''-'' # show_nat (nat (- i)) else show_nat (nat i))"

text \<open>\<open>Math.round\<close>: the nearest integer, halves towards plus infinity.\<close>

definition Math_round :: "rat \<Rightarrow> int" where
  "Math_round x = \<lfloor>x + 1 / 2\<rfloor>"

subsection \<open>Mongoose queries\<close>

definition findProductById :: "oid \<Rightarrow> product_doc list \<Rightarrow> product_doc option" where
  "findProductById i ps = find (\<lambda>p. p_id p = i) ps"

text \<open>
  The recurring lookup
  \<open>cartId ? Cart.findOne({_id: cartId, user: userId}) : Cart.findOne({user: userId})\<close>.
\<close>

definition loadCart :: "oid option \<Rightarrow> oid \<Rightarrow> cart_doc list \<Rightarrow> cart_doc option" where
  "loadCart cartId userId cs =
     (if truthy_str cartId
      then find (\<lambda>c. Some (cart_id c) = cartId \<and> cart_user c = userId) cs
      else find (\<lambda>c. cart_user c = userId) cs)"

text \<open>
  \<open>populate("items.product")\<close> joins each line with its product document, or with
  null when the product is gone.  A populated line keeps the stored line beside the
  joined product.
\<close>

type_synonym populated_item = "cart_item \<times> product_doc option"

definition populate :: "product_doc list \<Rightarrow> cart_item list \<Rightarrow> populated_item list" where
  "populate ps its = map (\<lambda>i. (i, findProductById (item_product i) ps)) its"

text \<open>\<open>cart.save()\<close> of a cart that was loaded from the collection.\<close>

definition saveCart :: "cart_doc \<Rightarrow> cart_doc list \<Rightarrow> cart_doc list" where
  "saveCart c cs = map (\<lambda>c'. if cart_id c' = cart_id c then c else c') cs"

section \<open>controllers/cartController.js\<close>









subsection \<open>Sequences of cart requests and the stock bound\<close>






text \<open>Sample data: one product with stock 10 and the cart of user \<open>u1\<close>.\<close>

definition demo_product :: product_doc where
  "demo_product = \<lparr>p_id = ''p1'', p_name = ''Bottle'', p_description = ''Steel bottle'',
     p_price = 5 / 2, p_category = ''General'', p_image = [], p_stock = 10,
     p_createdAt = 0, p_updatedAt = 0\<rparr>"

definition demo_db :: database where
  "demo_db = \<lparr>users = [], products = [demo_product], carts = [], orders = []\<rparr>"



definition demo_line :: "int \<Rightarrow> cart_item" where
  "demo_line q = \<lparr>item_id = ''i1'', item_product = ''p1'', item_quantity = q\<rparr>"

definition demo_cart :: "int \<Rightarrow> cart_doc" where
  "demo_cart q = \<lparr>cart_id = ''c1'', cart_user = ''u1'', cart_items = [demo_line q]\<rparr>"


subsection \<open>Reading the cart\<close>

text \<open>
  The object \<open>getCart\<close> builds for one line (\<open>validItems.map(...)\<close>).  The map
  runs over lines that passed the filter \<open>item => item.product\<close>, so the second
  equation is never reached; in the source it would be a read through null.
\<close>

fun cartItemJson :: "populated_item \<Rightarrow> json" where
  "cartItemJson (item, Some product) =
     JObj [(''id'', JStr (item_id item)),
           (''productId'', JStr (p_id product)),
           (''name'', JStr (p_name product)),
           (''price'', JNum (p_price product)),
           (''quantity'', JNum (of_int (item_quantity item))),
           (''image'', JStr (p_image product)),
           (''stock'', JNum (of_int (p_stock product))),
           (''category'', JStr (p_category product)),
           (''description'', JStr (p_description product))]"
| "cartItemJson (item, None) = JNull"

definition getCart :: "oid \<Rightarrow> oid option \<Rightarrow> database \<Rightarrow> response \<times> database" where
  "getCart userId cartId db =
     (case loadCart cartId userId (carts db) of
        None \<Rightarrow> (reply 200 (JArr []), db)
      | Some cart \<Rightarrow>
          let items = populate (products db) (cart_items cart);
              validItems = filter (\<lambda>(item, product). product \<noteq> None) items;
              db' = (if length validItems \<noteq> length items
                     then db\<lparr>carts := saveCart (cart\<lparr>cart_items := map fst validItems\<rparr>) (carts db)\<rparr>
                     else db)
          in (reply 200 (JArr (map cartItemJson validItems)), db'))"



text \<open>Reading a field of a JSON object.\<close>

fun json_field :: "string \<Rightarrow> json \<Rightarrow> json option" where
  "json_field k (JObj kvs) = map_of kvs k"
| "json_field k _ = None"

text \<open>The vocabulary of the statements about reads.\<close>

definition product_exists :: "product_doc list \<Rightarrow> cart_item \<Rightarrow> bool" where
  "product_exists ps it = (findProductById (item_product it) ps \<noteq> None)"

text \<open>The lines whose product exists, each beside its product.\<close>

definition joined_lines :: "product_doc list \<Rightarrow> cart_item list \<Rightarrow> (cart_item \<times> product_doc) list" where
  "joined_lines ps its =
     List.map_filter (\<lambda>it. map_option (Pair it) (findProductById (item_product it) ps)) its"

text \<open>
  Sample data: the cart of \<open>u1\<close> with a line whose product \<open>p9\<close> is gone, and a
  catalogue with a second product priced at 1.999.
\<close>

definition demo_gone_line :: cart_item where
  "demo_gone_line = \<lparr>item_id = ''i2'', item_product = ''p9'', item_quantity = 4\<rparr>"

definition demo_cart2 :: cart_doc where
  "demo_cart2 = \<lparr>cart_id = ''c1'', cart_user = ''u1'', cart_items = [demo_gone_line, demo_line 3]\<rparr>"

definition demo_db2 :: database where
  "demo_db2 = demo_db\<lparr>carts := [demo_cart2]\<rparr>"





section \<open>controllers/paymentController.js\<close>

text \<open>
  The payment processor is an external collaborator.  Its two calls are parameters of
  the model; a call that throws returns \<open>Inl\<close> with the error message.  The sessions
  the processor was asked to create are kept beside the database, so that "no session
  is created" is a statement about the state after the request.
\<close>

record stripe_session =
  ss_id :: string
  ss_url :: string
  ss_payment_status :: string
  ss_meta_userId :: oid
  ss_meta_cartId :: oid
  ss_amount_total :: int
  ss_currency :: string

text \<open>
  One entry of \<open>line_items\<close> (the currency is always \<open>usd\<close>, the images always
  empty) and the request \<open>sessionData\<close> (the payment method, the mode and the address
  requirements are constants of the source).
\<close>

record line_item =
  li_name :: string
  li_description :: string
  li_unit_amount :: int
  li_quantity :: int

record session_data =
  sd_line_items :: "line_item list"
  sd_meta_userId :: oid
  sd_meta_cartId :: oid
  sd_meta_itemCount :: string
  sd_success_url :: string
  sd_cancel_url :: string
  sd_expires_at :: nat
  sd_customer_email :: "string option"

record stripe_api =
  sessions_create :: "session_data \<Rightarrow> string + stripe_session"
  sessions_retrieve :: "string \<Rightarrow> string + stripe_session"

text \<open>\<open>process.env\<close>, as far as the controller reads it.\<close>

record environment =
  STRIPE_SECRET_KEY :: "string option"
  CLIENT_URL :: "string option"

text \<open>\<open>req.user\<close>, the payload of the verified token.\<close>

record req_user =
  ru_id :: oid
  ru_email :: "string option"

record world =
  w_db :: database
  w_sessions :: "session_data list"

text \<open>
  The loop \<open>for (const item of cart.items)\<close> of \<open>createCheckoutSession\<close>, with
  its two arrays \<open>validItems\<close> and \<open>issues\<close> as accumulators.
\<close>

fun checkItems :: "populated_item list \<Rightarrow> populated_item list \<Rightarrow> string list \<Rightarrow>
    populated_item list \<times> string list" where
  "checkItems [] validItems issues = (validItems, issues)"
| "checkItems ((item, None) # rest) validItems issues =
     checkItems rest validItems (issues @ [''Product not found for cart item''])"
| "checkItems ((item, Some product) # rest) validItems issues =
     (if p_stock product < item_quantity item
      then (if p_stock product = 0
            then checkItems rest validItems (issues @ [p_name product @ '' is out of stock''])
            else checkItems rest
                   (validItems @ [(item\<lparr>item_quantity := p_stock product\<rparr>, Some product)])
                   (issues @ [''Only '' @ show_int (p_stock product) @ '' '' @ p_name product @
                              '' available'']))
      else checkItems rest (validItems @ [(item, Some product)]) issues)"

text \<open>
  One entry of \<open>line_items\<close>.  The lines in \<open>validItems\<close> all have a product; the
  second equation is never reached.
\<close>

fun lineItem :: "populated_item \<Rightarrow> line_item" where
  "lineItem (item, Some product) =
     \<lparr>li_name = p_name product,
      li_description = (if p_description product \<noteq> [] then p_description product
                        else p_category product @ '' - Eco-friendly product''),
      li_unit_amount = Math_round (p_price product * 100),
      li_quantity = item_quantity item\<rparr>"
| "lineItem (item, None) =
     \<lparr>li_name = [], li_description = [], li_unit_amount = 0, li_quantity = item_quantity item\<rparr>"

text \<open>The object \<open>sessionData\<close> built from the lines that passed the check.\<close>

definition sessionDataOf ::
    "environment \<Rightarrow> nat \<Rightarrow> req_user \<Rightarrow> cart_doc \<Rightarrow> populated_item list \<Rightarrow> session_data" where
  "sessionDataOf env now user cart validItems =
     (let clientUrl = (case CLIENT_URL env of
                         Some url \<Rightarrow> if url \<noteq> [] then url else ''http://localhost:3000''
                       | None \<Rightarrow> ''http://localhost:3000'')
      in \<lparr>sd_line_items = map lineItem validItems,
          sd_meta_userId = ru_id user,
          sd_meta_cartId = cart_id cart,
          sd_meta_itemCount = show_nat (length validItems),
          sd_success_url = clientUrl @ ''/success?session_id={CHECKOUT_SESSION_ID}'',
          sd_cancel_url = clientUrl @ ''/cart'',
          sd_expires_at = now div 1000 + 30 * 60,
          sd_customer_email = (if truthy_str (ru_email user) then ru_email user else None)\<rparr>)"

text \<open>The answer after \<open>stripe.checkout.sessions.create\<close> returned.\<close>

definition sessionCreated :: "stripe_session \<Rightarrow> string list \<Rightarrow> response" where
  "sessionCreated session issues =
     reply 200 (JObj ([(''success'', JBool True),
        (''url'', JStr (ss_url session)),
        (''sessionId'', JStr (ss_id session)),
        (''message'', JStr (if length issues > 0
           then ''Some items were adjusted due to stock availability''
           else ''Checkout session created successfully''))] @
        (if length issues > 0 then [(''issues'', JArr (map JStr issues))] else [])))"

definition createCheckoutSession ::
    "environment \<Rightarrow> stripe_api \<Rightarrow> nat \<Rightarrow> req_user \<Rightarrow> oid option \<Rightarrow> world \<Rightarrow> response \<times> world" where
  "createCheckoutSession env stripe now user cartId w =
     (if \<not> truthy_str (STRIPE_SECRET_KEY env)
      then (reply 500 (error_json ''Stripe not configured''), w)
      else
        case loadCart cartId (ru_id user) (carts (w_db w)) of
          None \<Rightarrow> (reply 400 (error_json ''Cart is empty''), w)
        | Some cart \<Rightarrow>
            if length (cart_items cart) = 0
            then (reply 400 (error_json ''Cart is empty''), w)
            else
              let (validItems, issues) =
                    checkItems (populate (products (w_db w)) (cart_items cart)) [] []
              in
              if length validItems = 0
              then (reply 400 (JObj [(''error'', JStr ''No items available for checkout''),
                                     (''issues'', JArr (map JStr issues))]), w)
              else
                let sessionData = sessionDataOf env now user cart validItems
                in
                (case sessions_create stripe sessionData of
                   Inl message \<Rightarrow>
                     (reply 500 (JObj [(''error'', JStr ''Failed to create checkout session''),
                                       (''message'', JStr message)]), w)
                 | Inr session \<Rightarrow>
                     (sessionCreated session issues,
                      w\<lparr>w_sessions := w_sessions w @ [sessionData]\<rparr>)))"

text \<open>
  \<open>Product.findByIdAndUpdate(id, {$inc: {stock: -quantity}, updatedAt: new Date()},
  {new: true})\<close>: the updated document, or null when no product has the identifier.
\<close>

fun updateFirst :: "('a \<Rightarrow> bool) \<Rightarrow> ('a \<Rightarrow> 'a) \<Rightarrow> 'a list \<Rightarrow> 'a list" where
  "updateFirst P f [] = []"
| "updateFirst P f (x # xs) = (if P x then f x # xs else x # updateFirst P f xs)"

definition purchase :: "int \<Rightarrow> nat \<Rightarrow> product_doc \<Rightarrow> product_doc" where
  "purchase quantity now p = p\<lparr>p_stock := p_stock p - quantity, p_updatedAt := now\<rparr>"

record stock_update =
  su_productId :: oid
  su_productName :: string
  su_quantityPurchased :: int
  su_previousStock :: int
  su_newStock :: int

text \<open>
  The loop of \<open>handlePaymentSuccess\<close> over the populated lines of the cart.  The
  products are read and written in the collection as it is when the line is reached;
  \<open>item.product\<close> is the document joined when the cart was loaded.  The third
  component is the message of a \<open>TypeError\<close> thrown by \<open>updatedProduct.stock\<close>
  on null; the writes made before it stay.
\<close>

fun processItems :: "nat \<Rightarrow> populated_item list \<Rightarrow> product_doc list \<Rightarrow> stock_update list \<Rightarrow>
    product_doc list \<times> stock_update list \<times> string option" where
  "processItems now [] ps stockUpdates = (ps, stockUpdates, None)"
| "processItems now ((item, None) # rest) ps stockUpdates = processItems now rest ps stockUpdates"
| "processItems now ((item, Some product) # rest) ps stockUpdates =
     (if p_stock product \<ge> item_quantity item
      then (case findProductById (p_id product) ps of
              None \<Rightarrow> (ps, stockUpdates, Some ''Cannot read properties of null (reading stock)'')
            | Some current \<Rightarrow>
                let updatedProduct = purchase (item_quantity item) now current
                in processItems now rest
                     (updateFirst (\<lambda>p. p_id p = p_id product) (purchase (item_quantity item) now) ps)
                     (stockUpdates @
                        [\<lparr>su_productId = p_id product, su_productName = p_name product,
                          su_quantityPurchased = item_quantity item,
                          su_previousStock = p_stock product,
                          su_newStock = p_stock updatedProduct\<rparr>]))
      else processItems now rest ps stockUpdates)"

definition stockUpdateJson :: "stock_update \<Rightarrow> json" where
  "stockUpdateJson u =
     JObj [(''productId'', JStr (su_productId u)), (''productName'', JStr (su_productName u)),
           (''quantityPurchased'', JNum (of_int (su_quantityPurchased u))),
           (''previousStock'', JNum (of_int (su_previousStock u))),
           (''newStock'', JNum (of_int (su_newStock u)))]"

definition handlePaymentSuccess ::
    "stripe_api \<Rightarrow> nat \<Rightarrow> string option \<Rightarrow> world \<Rightarrow> response \<times> world" where
  "handlePaymentSuccess stripe now sessionId w =
     (case sessionId of
        None \<Rightarrow> (reply 400 (error_json ''Session ID is required''), w)
      | Some sid \<Rightarrow>
          if sid = [] then (reply 400 (error_json ''Session ID is required''), w)
          else
            (case sessions_retrieve stripe sid of
               Inl message \<Rightarrow> (reply 500 (error_json message), w)
             | Inr session \<Rightarrow>
                 if ss_payment_status session \<noteq> ''paid''
                 then (reply 400 (error_json ''Payment not completed''), w)
                 else
                   (case find (\<lambda>c. cart_id c = ss_meta_cartId session \<and>
                                     cart_user c = ss_meta_userId session) (carts (w_db w)) of
                      None \<Rightarrow> (reply 404 (error_json ''Cart not found''), w)
                    | Some cart \<Rightarrow>
                        (case processItems now (populate (products (w_db w)) (cart_items cart))
                                (products (w_db w)) [] of
                           (ps, stockUpdates, Some message) \<Rightarrow>
                             (reply 500 (error_json message), w\<lparr>w_db := (w_db w)\<lparr>products := ps\<rparr>\<rparr>)
                         | (ps, stockUpdates, None) \<Rightarrow>
                             (reply 200 (JObj [(''success'', JBool True),
                                (''message'', JStr ''Payment successful and order processed''),
                                (''sessionId'', JStr sid),
                                (''orderId'', JStr (''ECO-'' @ show_nat now)),
                                (''stockUpdates'', JArr (map stockUpdateJson stockUpdates)),
                                (''itemsProcessed'', JNum (of_nat (length stockUpdates))),
                                (''totalAmount'', JNum (of_int (ss_amount_total session) / 100)),
                                (''currency'', JStr (ss_currency session))]),
                              w\<lparr>w_db := (w_db w)\<lparr>products := ps,
                                  carts := saveCart (cart\<lparr>cart_items := []\<rparr>) (carts (w_db w))\<rparr>\<rparr>)))))"

subsection \<open>The partition of the lines, in the words of the specification\<close>

text \<open>
  What the specification says of one joined line: with stock above 0 and below the
  requested quantity the line is kept with its quantity set to the stock, and an
  advisory is recorded; with stock 0 the line is dropped and an advisory is recorded;
  with sufficient stock the line is kept as it is.  A line whose product is gone is
  dropped with an advisory (the source's own first case).
\<close>

fun spec_keep :: "populated_item \<Rightarrow> populated_item option" where
  "spec_keep (item, None) = None"
| "spec_keep (item, Some product) =
     (if 0 < p_stock product \<and> p_stock product < item_quantity item
      then Some (item\<lparr>item_quantity := p_stock product\<rparr>, Some product)
      else if p_stock product = 0 then None
      else Some (item, Some product))"

fun spec_advisory :: "populated_item \<Rightarrow> string option" where
  "spec_advisory (item, None) = Some ''Product not found for cart item''"
| "spec_advisory (item, Some product) =
     (if 0 < p_stock product \<and> p_stock product < item_quantity item
      then Some (''Only '' @ show_int (p_stock product) @ '' '' @ p_name product @ '' available'')
      else if p_stock product = 0 then Some (p_name product @ '' is out of stock'')
      else None)"

text \<open>
  The data model's invariants on a joined line: the quantity is at least 1 and the
  stock of the product is not negative.
\<close>

fun line_wf :: "populated_item \<Rightarrow> bool" where
  "line_wf (item, None) = (1 \<le> item_quantity item)"
| "line_wf (item, Some product) = (1 \<le> item_quantity item \<and> 0 \<le> p_stock product)"

text \<open>
  Sample data for the checkout: a processor that accepts every request, a configured
  and an unconfigured environment, and carts whose line asks for more than the stock.
\<close>

definition demo_paid :: "string \<Rightarrow> stripe_session" where
  "demo_paid sid = \<lparr>ss_id = sid, ss_url = ''https://pay/cs_1'', ss_payment_status = ''paid'',
     ss_meta_userId = ''u1'', ss_meta_cartId = ''c1'', ss_amount_total = 1250,
     ss_currency = ''usd''\<rparr>"

definition demo_stripe :: stripe_api where
  "demo_stripe =
     \<lparr>sessions_create = (\<lambda>sd. Inr \<lparr>ss_id = ''cs_1'', ss_url = ''https://pay/cs_1'',
          ss_payment_status = ''unpaid'', ss_meta_userId = sd_meta_userId sd,
          ss_meta_cartId = sd_meta_cartId sd, ss_amount_total = 0, ss_currency = ''usd''\<rparr>),
      sessions_retrieve = (\<lambda>sid. Inr (demo_paid sid))\<rparr>"

definition demo_env :: environment where
  "demo_env = \<lparr>STRIPE_SECRET_KEY = Some ''sk_test'', CLIENT_URL = None\<rparr>"

definition demo_env_unset :: environment where
  "demo_env_unset = \<lparr>STRIPE_SECRET_KEY = None, CLIENT_URL = None\<rparr>"

definition demo_user :: req_user where
  "demo_user = \<lparr>ru_id = ''u1'', ru_email = None\<rparr>"

definition demo_world :: "int \<Rightarrow> int \<Rightarrow> world" where
  "demo_world stock q =
     \<lparr>w_db = \<lparr>users = [], products = [demo_product\<lparr>p_stock := stock\<rparr>],
              carts = [demo_cart q], orders = []\<rparr>,
      w_sessions = []\<rparr>"

definition demo_world_empty :: world where
  "demo_world_empty =
     \<lparr>w_db = \<lparr>users = [], products = [demo_product],
              carts = [\<lparr>cart_id = ''c1'', cart_user = ''u1'', cart_items = []\<rparr>], orders = []\<rparr>,
      w_sessions = []\<rparr>"

text \<open>No product has a negative stock.\<close>

definition stocks_nonneg :: "product_doc list \<Rightarrow> bool" where
  "stocks_nonneg ps = (\<forall>p \<in> set ps. 0 \<le> p_stock p)"

text \<open>
  What the payment-success callback takes from the stock of the product \<open>x\<close>: the
  quantities of the cart lines for \<open>x\<close> that pass the floor check against the
  product as stored when the cart is loaded.
\<close>

definition purchased :: "product_doc list \<Rightarrow> cart_item list \<Rightarrow> oid \<Rightarrow> int" where
  "purchased ps its x =
     (\<Sum>it\<leftarrow>its. if item_product it = x \<and>
                      (case findProductById x ps of
                         Some p \<Rightarrow> item_quantity it \<le> p_stock p
                       | None \<Rightarrow> False)
                   then item_quantity it else 0)"

section \<open>controllers/authController.js and routes/authRoutes.js\<close>

text \<open>
  The password hashing and token signing libraries are external collaborators: their
  functions are parameters of the model.  \<open>jwt.sign\<close> throws when the signing
  secret is missing; \<open>Inl\<close> is the message it throws with, which the handler's
  \<open>catch\<close> answers as 500.  The User model is not among the sources: what
  \<open>newUser.save()\<close> validates is the parameter \<open>userSchema\<close>, which gives
  the message of the validation error, if any.
\<close>

record crypto =
  hashSync :: "string \<Rightarrow> string"
  compareSync :: "string \<Rightarrow> string \<Rightarrow> bool"
  jwt_sign :: "oid \<Rightarrow> string \<Rightarrow> string \<Rightarrow> string + string"

record auth_body =
  rb_username :: "string option"
  rb_password :: "string option"
  rb_role :: "string option"

definition register ::
    "crypto \<Rightarrow> (user_doc \<Rightarrow> string option) \<Rightarrow> oid \<Rightarrow> auth_body \<Rightarrow> database \<Rightarrow> response \<times> database" where
  "register cr userSchema newId b db =
     (case (rb_username b, rb_password b) of
        (Some username, Some password) \<Rightarrow>
          if username = [] \<or> password = []
          then (reply 400 (error_json ''Username & password required''), db)
          else
            (case find (\<lambda>u. u_username u = username) (users db) of
               Some existingUser \<Rightarrow> (reply 400 (error_json ''Username already taken''), db)
             | None \<Rightarrow>
                 let hashed = hashSync cr password;
                     newUser = \<lparr>u_id = newId, u_username = username, u_password = hashed,
                                u_role = (case rb_role b of
                                            Some role \<Rightarrow> if role \<noteq> [] then role else ''user''
                                          | None \<Rightarrow> ''user'')\<rparr>
                 in (case userSchema newUser of
                       Some message \<Rightarrow> (reply 500 (error_json message), db)
                     | None \<Rightarrow>
                         (reply 200 (JObj [(''message'', JStr ''User registered''),
                                           (''userId'', JStr (u_id newUser)),
                                           (''role'', JStr (u_role newUser))]),
                          db\<lparr>users := users db @ [newUser]\<rparr>)))
      | _ \<Rightarrow> (reply 400 (error_json ''Username & password required''), db))"


record password_body =
  pb_currentPassword :: "string option"
  pb_newPassword :: "string option"

definition changePassword ::
    "crypto \<Rightarrow> oid \<Rightarrow> password_body \<Rightarrow> database \<Rightarrow> response \<times> database" where
  "changePassword cr userId b db =
     (case (pb_currentPassword b, pb_newPassword b) of
        (Some currentPassword, Some newPassword) \<Rightarrow>
          if currentPassword = [] \<or> newPassword = []
          then (reply 400 (error_json ''Current password and new password are required''), db)
          else
            (case find (\<lambda>u. u_id u = userId) (users db) of
               None \<Rightarrow> (reply 404 (error_json ''User not found''), db)
             | Some user \<Rightarrow>
                 if \<not> compareSync cr currentPassword (u_password user)
                 then (reply 401 (error_json ''Current password is incorrect''), db)
                 else if length newPassword < 6
                 then (reply 400 (error_json ''New password must be at least 6 characters long''), db)
                 else
                   let hashedNewPassword = hashSync cr newPassword
                   in (reply 200 (JObj [(''message'', JStr ''Password changed successfully'')]),
                       db\<lparr>users := updateFirst (\<lambda>u. u_id u = userId)
                                       (\<lambda>u. u\<lparr>u_password := hashedNewPassword\<rparr>) (users db)\<rparr>))
      | _ \<Rightarrow> (reply 400 (error_json ''Current password and new password are required''), db))"

subsection \<open>middleware/securityMiddleware.js: validateAuth\<close>

text \<open>
  \<open>validator.isAlphanumeric\<close> with its default locale: one or more of the letters
  and digits of ASCII.  \<open>validator.isLength\<close> counts the characters.  A middleware
  gives \<open>Some\<close> response when it answers itself and \<open>None\<close> when it calls
  \<open>next()\<close>.
\<close>

definition isAlphanumeric :: "string \<Rightarrow> bool" where
  "isAlphanumeric s =
     (s \<noteq> [] \<and> list_all (\<lambda>c. c \<in> set (''0123456789'' @ ''abcdefghijklmnopqrstuvwxyz'' @
                                         ''ABCDEFGHIJKLMNOPQRSTUVWXYZ'')) s)"

definition isLength :: "string \<Rightarrow> nat \<Rightarrow> nat \<Rightarrow> bool" where
  "isLength s lo hi = (lo \<le> length s \<and> length s \<le> hi)"

definition validateAuth :: "auth_body \<Rightarrow> response option" where
  "validateAuth b =
     (case (rb_username b, rb_password b) of
        (Some username, Some password) \<Rightarrow>
          if username = [] \<or> password = []
          then Some (reply 400 (error_json ''Username and password are required''))
          else if \<not> isLength username 3 20
          then Some (reply 400 (error_json ''Username must be 3-20 characters long''))
          else if \<not> isAlphanumeric username
          then Some (reply 400 (error_json ''Username must contain only letters and numbers''))
          else if \<not> isLength password 6 100
          then Some (reply 400 (error_json ''Password must be 6-100 characters long''))
          else None
      | _ \<Rightarrow> Some (reply 400 (error_json ''Username and password are required'')))"

subsection \<open>routes/authRoutes.js: the account lockout\<close>







subsection \<open>routes/authRoutes.js: the change-password route\<close>

text \<open>The inline middleware in front of \<open>changePassword\<close>.\<close>

definition checkNewPassword :: "password_body \<Rightarrow> response option" where
  "checkNewPassword b =
     (case (pb_currentPassword b, pb_newPassword b) of
        (Some currentPassword, Some newPassword) \<Rightarrow>
          if currentPassword = [] \<or> newPassword = []
          then Some (reply 400 (error_json ''Current password and new password are required''))
          else if length newPassword < 6 \<or> length newPassword > 100
          then Some (reply 400 (error_json ''New password must be 6-100 characters long''))
          else if currentPassword = newPassword
          then Some (reply 400
                 (error_json ''New password must be different from current password''))
          else None
      | _ \<Rightarrow> Some (reply 400 (error_json ''Current password and new password are required'')))"

text \<open>
  \<open>router.put("/change-password", verifyToken, passwordChangeLimiter, (inline
  middleware), changePassword)\<close>, for a request that carries a verified token
  (\<open>userId\<close> is \<open>req.user.id\<close>) and has passed the rate limiter.
\<close>

definition changePasswordRoute ::
    "crypto \<Rightarrow> oid \<Rightarrow> password_body \<Rightarrow> database \<Rightarrow> response \<times> database" where
  "changePasswordRoute cr userId b db =
     (case checkNewPassword b of
        Some r \<Rightarrow> (r, db)
      | None \<Rightarrow> changePassword cr userId b db)"

text \<open>\<open>router.post("/register", registerLimiter, validateAuth, register)\<close>, past the rate limiter.\<close>

definition registerRoute ::
    "crypto \<Rightarrow> (user_doc \<Rightarrow> string option) \<Rightarrow> oid \<Rightarrow> auth_body \<Rightarrow> database \<Rightarrow> response \<times> database" where
  "registerRoute cr userSchema newId b db =
     (case validateAuth b of
        Some r \<Rightarrow> (r, db)
      | None \<Rightarrow> register cr userSchema newId b db)"

subsection \<open>The vocabulary of the statements about authentication\<close>

text \<open>The role \<open>register\<close> gives a new user: \<open>role || "user"\<close>.\<close>

definition role_or_user :: "string option \<Rightarrow> string" where
  "role_or_user role = (case role of Some r \<Rightarrow> if r \<noteq> [] then r else ''user'' | None \<Rightarrow> ''user'')"

text \<open>A failed login, as \<open>trackFailedLogin\<close> recognises it.\<close>

definition invalid_credentials :: "response \<Rightarrow> bool" where
  "invalid_credentials r =
     (status r = 401 \<and> json_field ''error'' (body r) = Some (JStr ''Invalid credentials''))"


text \<open>
  Sample data: a hash that prefixes a mark, a User model that accepts the two roles
  of the data model, and the user \<open>alice123\<close>.
\<close>

definition demo_crypto :: crypto where
  "demo_crypto = \<lparr>hashSync = (\<lambda>p. ''#'' @ p), compareSync = (\<lambda>p h. h = ''#'' @ p),
                   jwt_sign = (\<lambda>i u r. Inr (''jwt.'' @ i))\<rparr>"

definition demo_schema :: "user_doc \<Rightarrow> string option" where
  "demo_schema u = (if u_role u \<in> {''user'', ''admin''} then None
                    else Some ''User validation failed: role'')"

definition demo_alice :: user_doc where
  "demo_alice = \<lparr>u_id = ''a1'', u_username = ''alice123'', u_password = ''#secret1'',
                  u_role = ''user''\<rparr>"

definition demo_users :: database where
  "demo_users = \<lparr>users = [demo_alice], products = [], carts = [], orders = []\<rparr>"







section \<open>controllers/productController.js: updateProduct\<close>























section \<open>Properties of the cart controller\<close>

subsection \<open>Lists and queries\<close>


lemma find_SomeD: "find P xs = Some x \<Longrightarrow> x \<in> set xs \<and> P x"
  by (induction xs) (auto split: if_splits)



subsection \<open>The stock bound is kept by every cart request\<close>














subsection \<open>What a single add or update answers\<close>

















subsection \<open>Reading the cart\<close>

lemma find_saveCart:
  "find P cs = Some c \<Longrightarrow> P c' \<Longrightarrow> cart_id c' = cart_id c \<Longrightarrow> find P (saveCart c' cs) = Some c'"
  by (induction cs) (auto simp: saveCart_def split: if_splits)

lemma loadCart_saveCart:
  assumes "loadCart cid u cs = Some c" "cart_id c' = cart_id c" "cart_user c' = cart_user c"
  shows "loadCart cid u (saveCart c' cs) = Some c'"
proof (cases "truthy_str cid")
  case True
  with assms show ?thesis
    using find_SomeD[of "\<lambda>c. Some (cart_id c) = cid \<and> cart_user c = u" cs c]
    by (simp add: loadCart_def find_saveCart)
next
  case False
  with assms show ?thesis
    using find_SomeD[of "\<lambda>c. cart_user c = u" cs c]
    by (simp add: loadCart_def find_saveCart)
qed

lemma valid_populate:
  "filter (\<lambda>(item, product). product \<noteq> None) (populate ps its) =
     populate ps (filter (product_exists ps) its)"
  by (induction its) (auto simp: populate_def product_exists_def)

lemma fst_populate: "map fst (populate ps its) = its"
  by (simp add: populate_def comp_def)

lemma length_filter_eq: "length (filter P xs) = length xs \<Longrightarrow> filter P xs = xs"
  by (metis filter_True length_filter_less less_irrefl_nat)

lemma populate_joined:
  "populate ps (filter (product_exists ps) its) =
     map (\<lambda>(it, p). (it, Some p)) (joined_lines ps its)"
  by (induction its)
     (auto simp: populate_def product_exists_def joined_lines_def)

lemma fst_joined_lines: "map fst (joined_lines ps its) = filter (product_exists ps) its"
  by (induction its) (auto simp: joined_lines_def product_exists_def)

lemma getCart_result:
  assumes "loadCart cid u (carts db) = Some cart"
  shows "getCart u cid db =
           (reply 200 (JArr (map cartItemJson
              (populate (products db) (filter (product_exists (products db)) (cart_items cart))))),
            if filter (product_exists (products db)) (cart_items cart) = cart_items cart then db
            else db\<lparr>carts := saveCart
                   (cart\<lparr>cart_items := filter (product_exists (products db)) (cart_items cart)\<rparr>)
                   (carts db)\<rparr>)"
proof -
  let ?kept = "filter (product_exists (products db)) (cart_items cart)"
  have len: "length (populate (products db) ?kept) = length ?kept"
    "length (populate (products db) (cart_items cart)) = length (cart_items cart)"
    by (simp_all add: populate_def)
  have "length ?kept = length (cart_items cart) \<longleftrightarrow> ?kept = cart_items cart"
    using length_filter_eq[of "product_exists (products db)" "cart_items cart"] by auto
  then show ?thesis
    unfolding getCart_def Let_def valid_populate fst_populate
    using assms by (simp add: len)
qed

lemma getCart_stored:
  assumes "loadCart cid u (carts db) = Some cart"
  shows "loadCart cid u (carts (snd (getCart u cid db))) =
           Some (cart\<lparr>cart_items := filter (product_exists (products db)) (cart_items cart)\<rparr>)"
    and "products (snd (getCart u cid db)) = products db"
  using assms by (auto simp: getCart_result loadCart_saveCart)

lemma getCart_again:
  assumes "loadCart cid u (carts db) = Some cart"
  shows "getCart u cid (snd (getCart u cid db)) = (fst (getCart u cid db), snd (getCart u cid db))"
proof -
  let ?db' = "snd (getCart u cid db)"
  let ?kept = "filter (product_exists (products db)) (cart_items cart)"
  have "getCart u cid ?db' =
      (reply 200 (JArr (map cartItemJson (populate (products db) ?kept))), ?db')"
    using getCart_result[OF getCart_stored(1)[OF assms]] getCart_stored(2)[OF assms]
    by simp
  then show ?thesis
    by (simp add: getCart_result[OF assms])
qed

text \<open>
  Claim C5.  A get-cart request on an existing cart returns exactly the lines whose
  product exists, in their order; the stored cart afterwards holds exactly those lines
  (so a removal is persisted, and a cart without dangling lines is stored as it was);
  the products are untouched; a second fetch gives the same answer and changes nothing;
  a line whose product exists is kept, a line whose product is gone is not.
\<close>

theorem getCart_removes_dangling_lines:
  assumes "loadCart cid u (carts db) = Some cart"
    and "kept = filter (product_exists (products db)) (cart_items cart)"
  shows "fst (getCart u cid db) =
           reply 200 (JArr (map (\<lambda>(it, p). cartItemJson (it, Some p))
                              (joined_lines (products db) (cart_items cart)))) \<and>
         map fst (joined_lines (products db) (cart_items cart)) = kept \<and>
         loadCart cid u (carts (snd (getCart u cid db))) = Some (cart\<lparr>cart_items := kept\<rparr>) \<and>
         products (snd (getCart u cid db)) = products db \<and>
         getCart u cid (snd (getCart u cid db)) = (fst (getCart u cid db), snd (getCart u cid db)) \<and>
         (\<forall>it \<in> set (cart_items cart).
            (product_exists (products db) it \<longrightarrow> it \<in> set kept) \<and>
            (\<not> product_exists (products db) it \<longrightarrow> it \<notin> set kept))"
proof -
  have c1: "fst (getCart u cid db) =
      reply 200 (JArr (map (\<lambda>(it, p). cartItemJson (it, Some p))
                         (joined_lines (products db) (cart_items cart))))"
    by (simp add: getCart_result[OF assms(1)] populate_joined comp_def case_prod_unfold)
  have c2: "map fst (joined_lines (products db) (cart_items cart)) = kept"
    unfolding assms(2) by (rule fst_joined_lines)
  have c3: "loadCart cid u (carts (snd (getCart u cid db))) = Some (cart\<lparr>cart_items := kept\<rparr>)"
    unfolding assms(2) by (rule getCart_stored(1)[OF assms(1)])
  have c4: "products (snd (getCart u cid db)) = products db"
    by (rule getCart_stored(2)[OF assms(1)])
  have c5: "getCart u cid (snd (getCart u cid db)) =
      (fst (getCart u cid db), snd (getCart u cid db))"
    by (rule getCart_again[OF assms(1)])
  have c6: "\<forall>it \<in> set (cart_items cart).
      (product_exists (products db) it \<longrightarrow> it \<in> set kept) \<and>
      (\<not> product_exists (products db) it \<longrightarrow> it \<notin> set kept)"
    unfolding assms(2) by simp
  show ?thesis
    using c1 c2 c3 c4 c5 c6 by blast
qed

text \<open>
  The cart of \<open>u1\<close> has a line for the product \<open>p9\<close>, which is gone, and a line
  for \<open>p1\<close>: the answer and the stored cart keep the second only.
\<close>

lemmas getCart_demo = demo_product_def demo_db_def demo_line_def demo_gone_line_def
  demo_cart_def demo_cart2_def demo_db2_def

theorem getCart_removes_dangling_lines_witness:
  "loadCart None ''u1'' (carts demo_db2) = Some demo_cart2 \<and>
   [demo_line 3] = filter (product_exists (products demo_db2)) (cart_items demo_cart2) \<and>
   fst (getCart ''u1'' None demo_db2) =
     reply 200 (JArr [cartItemJson (demo_line 3, Some demo_product)]) \<and>
   loadCart None ''u1'' (carts (snd (getCart ''u1'' None demo_db2))) = Some (demo_cart 3) \<and>
   getCart ''u1'' None (snd (getCart ''u1'' None demo_db2)) =
     (fst (getCart ''u1'' None demo_db2), snd (getCart ''u1'' None demo_db2)) \<and>
   demo_gone_line \<notin> set [demo_line 3]"
proof -
  have h1: "loadCart None ''u1'' (carts demo_db2) = Some demo_cart2"
    by (simp add: getCart_demo loadCart_def)
  have h2: "[demo_line 3] = filter (product_exists (products demo_db2)) (cart_items demo_cart2)"
    by (simp add: getCart_demo product_exists_def findProductById_def)
  have j: "joined_lines (products demo_db2) (cart_items demo_cart2) = [(demo_line 3, demo_product)]"
    by (simp add: getCart_demo joined_lines_def findProductById_def)
  have c: "demo_cart2\<lparr>cart_items := [demo_line 3]\<rparr> = demo_cart 3"
    by (simp add: getCart_demo)
  have g: "demo_gone_line \<in> set (cart_items demo_cart2) \<and>
      \<not> product_exists (products demo_db2) demo_gone_line"
    by (simp add: getCart_demo product_exists_def findProductById_def)
  note t = getCart_removes_dangling_lines[OF h1 h2]
  have c1: "fst (getCart ''u1'' None demo_db2) =
      reply 200 (JArr [cartItemJson (demo_line 3, Some demo_product)])"
    using t j by simp
  have c2: "loadCart None ''u1'' (carts (snd (getCart ''u1'' None demo_db2))) = Some (demo_cart 3)"
    using t c by simp
  have c3: "getCart ''u1'' None (snd (getCart ''u1'' None demo_db2)) =
      (fst (getCart ''u1'' None demo_db2), snd (getCart ''u1'' None demo_db2))"
    using t by blast
  have c4: "demo_gone_line \<notin> set [demo_line 3]"
    using t g by blast
  show ?thesis
    using h1 h2 c1 c2 c3 c4 by blast
qed

subsection \<open>The cart summary\<close>









section \<open>Properties of the payment controller\<close>

subsection \<open>The checkout session\<close>

lemma checkItems_acc:
  "\<forall>l \<in> set ls. line_wf l \<Longrightarrow>
     checkItems ls v is = (v @ List.map_filter spec_keep ls, is @ List.map_filter spec_advisory ls)"
proof (induction ls arbitrary: v "is")
  case Nil
  then show ?case by simp
next
  case (Cons l ls)
  obtain item p where l: "l = (item, p)" by (cases l)
  show ?case
  proof (cases p)
    case None
    with Cons l show ?thesis by simp
  next
    case (Some product)
    with Cons l show ?thesis by auto
  qed
qed

lemma checkItems_spec:
  "\<forall>l \<in> set ls. line_wf l \<Longrightarrow>
     checkItems ls [] [] = (List.map_filter spec_keep ls, List.map_filter spec_advisory ls)"
  by (simp add: checkItems_acc)

lemma lineItem_quantity: "li_quantity (lineItem l) = item_quantity (fst l)"
  by (cases l rule: lineItem.cases) simp_all

lemma createCheckoutSession_db: "w_db (snd (createCheckoutSession env stripe now user cartId w)) = w_db w"
  by (simp add: createCheckoutSession_def Let_def split: option.split prod.split sum.split)

lemma sessionCreated_status: "status (sessionCreated session issues) = 200"
  by (simp add: sessionCreated_def reply_def)

lemma sessionCreated_issues:
  "issues \<noteq> [] \<Longrightarrow>
     json_field ''issues'' (body (sessionCreated session issues)) = Some (JArr (map JStr issues))"
  by (simp add: sessionCreated_def reply_def)

lemma sessionDataOf_quantities:
  "map li_quantity (sd_line_items (sessionDataOf env now user cart kept)) =
     map (\<lambda>l. item_quantity (fst l)) kept"
  by (simp add: sessionDataOf_def Let_def lineItem_quantity comp_def)

lemma createCheckoutSession_partitioned:
  assumes "truthy_str (STRIPE_SECRET_KEY env)"
    and "loadCart cartId (ru_id user) (carts (w_db w)) = Some cart"
    and "cart_items cart \<noteq> []"
    and "checkItems (populate (products (w_db w)) (cart_items cart)) [] [] = (kept, advisories)"
  shows "createCheckoutSession env stripe now user cartId w =
     (if kept = []
      then (reply 400 (JObj [(''error'', JStr ''No items available for checkout''),
                             (''issues'', JArr (map JStr advisories))]), w)
      else case sessions_create stripe (sessionDataOf env now user cart kept) of
             Inl message \<Rightarrow>
               (reply 500 (JObj [(''error'', JStr ''Failed to create checkout session''),
                                 (''message'', JStr message)]), w)
           | Inr session \<Rightarrow>
               (sessionCreated session advisories,
                w\<lparr>w_sessions := w_sessions w @ [sessionDataOf env now user cart kept]\<rparr>))"
  using assms by (simp add: createCheckoutSession_def Let_def)

lemma createCheckoutSession_created:
  assumes "truthy_str (STRIPE_SECRET_KEY env)"
    and "loadCart cartId (ru_id user) (carts (w_db w)) = Some cart"
    and "cart_items cart \<noteq> []"
    and "checkItems (populate (products (w_db w)) (cart_items cart)) [] [] = (kept, advisories)"
    and "status (fst (createCheckoutSession env stripe now user cartId w)) = 200"
  shows "(\<exists>sd. w_sessions (snd (createCheckoutSession env stripe now user cartId w)) =
                   w_sessions w @ [sd] \<and>
                 map li_quantity (sd_line_items sd) = map (\<lambda>l. item_quantity (fst l)) kept) \<and>
         (advisories \<noteq> [] \<longrightarrow>
            json_field ''issues'' (body (fst (createCheckoutSession env stripe now user cartId w))) =
              Some (JArr (map JStr advisories)))"
proof -
  note run = createCheckoutSession_partitioned[OF assms(1-4)]
  have ne: "kept \<noteq> []"
    using assms(5) by (auto simp: run reply_def)
  show ?thesis
  proof (cases "sessions_create stripe (sessionDataOf env now user cart kept)")
    case (Inl message)
    then show ?thesis
      using assms(5) ne by (simp add: run reply_def)
  next
    case (Inr session)
    then show ?thesis
      using ne by (simp add: run sessionDataOf_quantities sessionCreated_issues)
  qed
qed

text \<open>
  Claim C2, as amended.  The request is made with the processor's secret key
  configured, on a cart that is not empty, whose joined lines satisfy the data model
  (quantity at least 1, stock not negative).  Then the loop splits the lines as the
  specification says: \<open>kept\<close> holds the lines with sufficient stock unchanged and
  the lines with stock above 0 but below the quantity with the quantity set to the
  stock, in their order; a line with stock 0 is dropped; \<open>advisories\<close> holds one
  message for every clamped or dropped line.  If every line is dropped the request
  answers 400 with the advisories and changes nothing.  If the request answers 200,
  the session asked of the processor has one entry per kept line with the kept
  quantity, and the advisories, if any, are in the answer.  The database is never
  changed: the clamp is not stored.
\<close>

theorem checkout_partition:
  assumes "truthy_str (STRIPE_SECRET_KEY env)"
    and "loadCart cartId (ru_id user) (carts (w_db w)) = Some cart"
    and "cart_items cart \<noteq> []"
    and "lines = populate (products (w_db w)) (cart_items cart)"
    and "\<forall>l \<in> set lines. line_wf l"
    and "kept = List.map_filter spec_keep lines"
    and "advisories = List.map_filter spec_advisory lines"
  shows "checkItems lines [] [] = (kept, advisories) \<and>
         (kept = [] \<longrightarrow>
            createCheckoutSession env stripe now user cartId w =
              (reply 400 (JObj [(''error'', JStr ''No items available for checkout''),
                                (''issues'', JArr (map JStr advisories))]), w)) \<and>
         (status (fst (createCheckoutSession env stripe now user cartId w)) = 200 \<longrightarrow>
            (\<exists>sd. w_sessions (snd (createCheckoutSession env stripe now user cartId w)) =
                    w_sessions w @ [sd] \<and>
                  map li_quantity (sd_line_items sd) = map (\<lambda>l. item_quantity (fst l)) kept) \<and>
            (advisories \<noteq> [] \<longrightarrow>
               json_field ''issues''
                  (body (fst (createCheckoutSession env stripe now user cartId w))) =
                 Some (JArr (map JStr advisories)))) \<and>
         w_db (snd (createCheckoutSession env stripe now user cartId w)) = w_db w"
proof -
  have split: "checkItems lines [] [] = (kept, advisories)"
    unfolding assms(6,7) using assms(5) by (rule checkItems_spec)
  then have loop: "checkItems (populate (products (w_db w)) (cart_items cart)) [] [] =
      (kept, advisories)"
    by (simp add: assms(4))
  have none: "kept = [] \<longrightarrow>
      createCheckoutSession env stripe now user cartId w =
        (reply 400 (JObj [(''error'', JStr ''No items available for checkout''),
                          (''issues'', JArr (map JStr advisories))]), w)"
    by (simp add: createCheckoutSession_partitioned[OF assms(1-3) loop])
  have some: "status (fst (createCheckoutSession env stripe now user cartId w)) = 200 \<longrightarrow>
      (\<exists>sd. w_sessions (snd (createCheckoutSession env stripe now user cartId w)) =
              w_sessions w @ [sd] \<and>
            map li_quantity (sd_line_items sd) = map (\<lambda>l. item_quantity (fst l)) kept) \<and>
      (advisories \<noteq> [] \<longrightarrow>
         json_field ''issues'' (body (fst (createCheckoutSession env stripe now user cartId w))) =
           Some (JArr (map JStr advisories)))"
    using createCheckoutSession_created[OF assms(1-3) loop] by blast
  show ?thesis
    using split none some createCheckoutSession_db[of env stripe now user cartId w] by blast
qed

text \<open>
  The specification's example: one line of quantity 5 with stock 3 is clamped to 3,
  the request succeeds and lists the clamp.
\<close>

lemmas partition_demo = demo_product_def demo_line_def demo_cart_def demo_stripe_def
  demo_env_def demo_env_unset_def demo_user_def demo_world_def

theorem checkout_partition_witness:
  "truthy_str (STRIPE_SECRET_KEY demo_env) \<and>
   loadCart None (ru_id demo_user) (carts (w_db (demo_world 3 5))) = Some (demo_cart 5) \<and>
   cart_items (demo_cart 5) \<noteq> [] \<and>
   list_all line_wf (populate (products (w_db (demo_world 3 5))) (cart_items (demo_cart 5))) \<and>
   checkItems (populate (products (w_db (demo_world 3 5))) (cart_items (demo_cart 5))) [] [] =
     ([(demo_line 3, Some (demo_product\<lparr>p_stock := 3\<rparr>))], [''Only 3 Bottle available'']) \<and>
   status (fst (createCheckoutSession demo_env demo_stripe 0 demo_user None (demo_world 3 5))) = 200 \<and>
   (\<exists>sd. w_sessions (snd (createCheckoutSession demo_env demo_stripe 0 demo_user None
                            (demo_world 3 5))) = [sd] \<and>
         map li_quantity (sd_line_items sd) = [3]) \<and>
   json_field ''issues''
      (body (fst (createCheckoutSession demo_env demo_stripe 0 demo_user None (demo_world 3 5)))) =
     Some (JArr [JStr ''Only 3 Bottle available''])"
proof -
  let ?w = "demo_world 3 5"
  let ?lines = "populate (products (w_db ?w)) (cart_items (demo_cart 5))"
  have h1: "truthy_str (STRIPE_SECRET_KEY demo_env)"
    by (simp add: partition_demo)
  have h2: "loadCart None (ru_id demo_user) (carts (w_db ?w)) = Some (demo_cart 5)"
    by (simp add: partition_demo loadCart_def)
  have h3: "cart_items (demo_cart 5) \<noteq> []"
    by (simp add: partition_demo)
  have h5: "\<forall>l \<in> set ?lines. line_wf l"
    by (simp add: partition_demo populate_def findProductById_def)
  have k: "[(demo_line 3, Some (demo_product\<lparr>p_stock := 3\<rparr>))] = List.map_filter spec_keep ?lines"
    by (simp add: partition_demo populate_def findProductById_def)
  have a: "[''Only 3 Bottle available''] = List.map_filter spec_advisory ?lines"
    by (simp add: partition_demo populate_def findProductById_def show_int_def show_nat.simps
          digit_char_def)
  have ok: "status (fst (createCheckoutSession demo_env demo_stripe 0 demo_user None ?w)) = 200"
    by (simp add: createCheckoutSession_partitioned[OF h1 h2 h3]
          checkItems_spec[OF h5] k[symmetric] a[symmetric] demo_stripe_def sessionCreated_status)
  note t = checkout_partition[OF h1 h2 h3 refl h5 k a]
  have q: "map (\<lambda>l. item_quantity (fst l)) [(demo_line 3, Some (demo_product\<lparr>p_stock := 3\<rparr>))] = [3]"
    by (simp add: demo_line_def)
  have s: "w_sessions ?w = []"
    by (simp add: demo_world_def)
  have c1: "checkItems ?lines [] [] =
      ([(demo_line 3, Some (demo_product\<lparr>p_stock := 3\<rparr>))], [''Only 3 Bottle available''])"
    using t by blast
  have c2: "\<exists>sd. w_sessions (snd (createCheckoutSession demo_env demo_stripe 0 demo_user None ?w)) =
        [sd] \<and> map li_quantity (sd_line_items sd) = [3]"
    using t ok q s by simp
  have c3: "json_field ''issues''
      (body (fst (createCheckoutSession demo_env demo_stripe 0 demo_user None ?w))) =
      Some (JArr [JStr ''Only 3 Bottle available''])"
    using t ok by simp
  have h5': "list_all line_wf ?lines"
    using h5 by (simp add: list_all_iff)
  show ?thesis
    using h1 h2 h3 h5' c1 ok c2 c3 by blast
qed

text \<open>
  The claim as stated, for every checkout-session request on a non-empty cart, fails
  where the secret key is not configured: the cart of \<open>u1\<close> has one line, its product
  is out of stock, so every line is dropped, and the answer is 500, not 400.
\<close>

theorem checkout_partition_counterexample:
  "loadCart None (ru_id demo_user) (carts (w_db (demo_world 0 2))) = Some (demo_cart 2) \<and>
   cart_items (demo_cart 2) \<noteq> [] \<and>
   List.map_filter spec_keep
     (populate (products (w_db (demo_world 0 2))) (cart_items (demo_cart 2))) = [] \<and>
   status (fst (createCheckoutSession demo_env_unset demo_stripe 0 demo_user None
                  (demo_world 0 2))) = 500"
  by (simp add: partition_demo loadCart_def populate_def findProductById_def
        createCheckoutSession_def reply_def)

text \<open>
  Claim C7, as amended.  A checkout-session request whose cart is absent or has no
  lines answers 400 "Cart is empty" when the processor's secret key is configured, and
  500 when it is not; in both cases the state after the request is the state before
  it, so no payment session is created.  The answer does not depend on the processor:
  its session-creation call is not reached.
\<close>

theorem empty_cart_checkout_rejected:
  assumes "loadCart cartId (ru_id user) (carts (w_db w)) = None \<or>
           (\<exists>cart. loadCart cartId (ru_id user) (carts (w_db w)) = Some cart \<and> cart_items cart = [])"
  shows "(truthy_str (STRIPE_SECRET_KEY env) \<longrightarrow>
            fst (createCheckoutSession env stripe now user cartId w) =
              reply 400 (error_json ''Cart is empty'')) \<and>
         (\<not> truthy_str (STRIPE_SECRET_KEY env) \<longrightarrow>
            status (fst (createCheckoutSession env stripe now user cartId w)) = 500) \<and>
         snd (createCheckoutSession env stripe now user cartId w) = w \<and>
         w_sessions (snd (createCheckoutSession env stripe now user cartId w)) = w_sessions w"
  using assms by (auto simp: createCheckoutSession_def reply_def)

lemmas empty_cart_demo = demo_product_def demo_stripe_def demo_env_def demo_env_unset_def
  demo_user_def demo_world_empty_def

theorem empty_cart_checkout_rejected_witness:
  "loadCart None ''u9'' (carts (w_db demo_world_empty)) = None \<and>
   status (fst (createCheckoutSession demo_env demo_stripe 0 \<lparr>ru_id = ''u9'', ru_email = None\<rparr>
                  None demo_world_empty)) = 400 \<and>
   (\<exists>cart. loadCart None (ru_id demo_user) (carts (w_db demo_world_empty)) = Some cart \<and>
           cart_items cart = []) \<and>
   status (fst (createCheckoutSession demo_env demo_stripe 0 demo_user None demo_world_empty)) = 400 \<and>
   w_sessions (snd (createCheckoutSession demo_env demo_stripe 0 demo_user None demo_world_empty)) = []"
proof -
  let ?u9 = "\<lparr>ru_id = ''u9'', ru_email = None\<rparr>"
  have h1: "loadCart None ''u9'' (carts (w_db demo_world_empty)) = None"
    by (simp add: empty_cart_demo loadCart_def)
  have h2: "\<exists>cart. loadCart None (ru_id demo_user) (carts (w_db demo_world_empty)) = Some cart \<and>
      cart_items cart = []"
    by (simp add: empty_cart_demo loadCart_def)
  have k: "truthy_str (STRIPE_SECRET_KEY demo_env)"
    by (simp add: empty_cart_demo)
  have s: "w_sessions demo_world_empty = []"
    by (simp add: empty_cart_demo)
  have c1: "status (fst (createCheckoutSession demo_env demo_stripe 0 ?u9 None demo_world_empty)) = 400"
    using empty_cart_checkout_rejected[of None ?u9 demo_world_empty demo_env demo_stripe 0] h1 k
    by (simp add: reply_def)
  have c2: "status (fst (createCheckoutSession demo_env demo_stripe 0 demo_user None
      demo_world_empty)) = 400"
    using empty_cart_checkout_rejected[of None demo_user demo_world_empty demo_env demo_stripe 0] h2 k
    by (simp add: reply_def)
  have c3: "w_sessions (snd (createCheckoutSession demo_env demo_stripe 0 demo_user None
      demo_world_empty)) = []"
    using empty_cart_checkout_rejected[of None demo_user demo_world_empty demo_env demo_stripe 0] h2 s
    by simp
  show ?thesis
    using h1 c1 h2 c2 c3 by blast
qed

text \<open>
  The claim as stated, status 400 for every such request, fails where the secret key
  is not configured: the cart of \<open>u1\<close> is empty and the answer is 500.
\<close>

theorem empty_cart_checkout_counterexample:
  "loadCart None (ru_id demo_user) (carts (w_db demo_world_empty)) =
     Some \<lparr>cart_id = ''c1'', cart_user = ''u1'', cart_items = []\<rparr> \<and>
   status (fst (createCheckoutSession demo_env_unset demo_stripe 0 demo_user None
                  demo_world_empty)) = 500"
  by (simp add: empty_cart_demo loadCart_def createCheckoutSession_def reply_def)

subsection \<open>The payment-success callback\<close>

lemma findProductById_id: "findProductById x ps = Some p \<Longrightarrow> p_id p = x"
  using find_SomeD[of "\<lambda>p. p_id p = x" ps p] by (simp add: findProductById_def)

lemma find_updateFirst_same:
  "find P xs = Some a \<Longrightarrow> P (f a) \<Longrightarrow> find P (updateFirst P f xs) = Some (f a)"
  by (induction xs) (auto split: if_splits)

lemma find_updateFirst_other:
  "(\<And>d. P d \<Longrightarrow> \<not> Q d \<and> \<not> Q (f d)) \<Longrightarrow> find Q (updateFirst P f xs) = find Q xs"
  by (induction xs) auto

lemma set_updateFirst:
  "find P xs = Some a \<Longrightarrow> set (updateFirst P f xs) \<subseteq> insert (f a) (set xs)"
  by (induction xs) (auto split: if_splits)

lemma purchase_same:
  assumes "findProductById x ps = Some p"
  shows "findProductById x (updateFirst (\<lambda>d. p_id d = x) (purchase q now) ps) = Some (purchase q now p)"
proof -
  have "p_id (purchase q now p) = x"
    using findProductById_id[OF assms] by (simp add: purchase_def)
  then show ?thesis
    using assms unfolding findProductById_def by (intro find_updateFirst_same) simp_all
qed

lemma purchase_other:
  "y \<noteq> x \<Longrightarrow>
     findProductById y (updateFirst (\<lambda>d. p_id d = x) (purchase q now) ps) = findProductById y ps"
  unfolding findProductById_def
  by (intro find_updateFirst_other) (simp add: purchase_def)

lemma purchase_nonneg:
  assumes "findProductById x ps = Some p" "q \<le> p_stock p" "stocks_nonneg ps"
  shows "stocks_nonneg (updateFirst (\<lambda>d. p_id d = x) (purchase q now) ps)"
  using assms set_updateFirst[of "\<lambda>d. p_id d = x" ps p "purchase q now"]
  unfolding findProductById_def stocks_nonneg_def
  by (auto simp: purchase_def)

lemma processItems_distinct:
  assumes "distinct (map item_product its)"
    and "\<forall>it \<in> set its. findProductById (item_product it) ps = findProductById (item_product it) ps0"
  shows "\<exists>ps' ups'. processItems now (populate ps0 its) ps ups = (ps', ups', None) \<and>
           (\<forall>it \<in> set its. \<forall>p. findProductById (item_product it) ps0 = Some p \<longrightarrow>
              map_option p_stock (findProductById (item_product it) ps') =
                Some (if item_quantity it \<le> p_stock p then p_stock p - item_quantity it
                      else p_stock p)) \<and>
           (\<forall>x. x \<notin> item_product ` set its \<longrightarrow> findProductById x ps' = findProductById x ps) \<and>
           (stocks_nonneg ps \<longrightarrow> stocks_nonneg ps')"
  using assms
proof (induction its arbitrary: ps ups)
  case Nil
  then show ?case by (simp add: populate_def)
next
  case (Cons it its)
  let ?x = "item_product it"
  have dist: "distinct (map item_product its)" and fresh: "?x \<notin> item_product ` set its"
    using Cons.prems(1) by auto
  have cur: "findProductById ?x ps = findProductById ?x ps0"
    using Cons.prems(2) by simp
  have pop: "populate ps0 (it # its) = (it, findProductById ?x ps0) # populate ps0 its"
    by (simp add: populate_def)
  show ?case
  proof (cases "findProductById ?x ps0")
    case None
    have run: "processItems now (populate ps0 (it # its)) ps ups = processItems now (populate ps0 its) ps ups"
      using None by (simp add: pop)
    from Cons.IH[OF dist, of ps ups] Cons.prems(2)
    obtain ps' ups' where r: "processItems now (populate ps0 its) ps ups = (ps', ups', None)"
      and a: "\<forall>it \<in> set its. \<forall>p. findProductById (item_product it) ps0 = Some p \<longrightarrow>
              map_option p_stock (findProductById (item_product it) ps') =
                Some (if item_quantity it \<le> p_stock p then p_stock p - item_quantity it
                      else p_stock p)"
      and b: "\<forall>x. x \<notin> item_product ` set its \<longrightarrow> findProductById x ps' = findProductById x ps"
      and c: "stocks_nonneg ps \<longrightarrow> stocks_nonneg ps'"
      by auto
    show ?thesis
      unfolding run r using a b c None by auto
  next
    case (Some p)
    have pid: "p_id p = ?x" using Some by (rule findProductById_id)
    show ?thesis
    proof (cases "item_quantity it \<le> p_stock p")
      case False
      have run: "processItems now (populate ps0 (it # its)) ps ups = processItems now (populate ps0 its) ps ups"
        using Some False by (simp add: pop)
      from Cons.IH[OF dist, of ps ups] Cons.prems(2)
      obtain ps' ups' where r: "processItems now (populate ps0 its) ps ups = (ps', ups', None)"
        and a: "\<forall>it \<in> set its. \<forall>p. findProductById (item_product it) ps0 = Some p \<longrightarrow>
              map_option p_stock (findProductById (item_product it) ps') =
                Some (if item_quantity it \<le> p_stock p then p_stock p - item_quantity it
                      else p_stock p)"
        and b: "\<forall>x. x \<notin> item_product ` set its \<longrightarrow> findProductById x ps' = findProductById x ps"
        and c: "stocks_nonneg ps \<longrightarrow> stocks_nonneg ps'"
        by auto
      have "findProductById ?x ps' = Some p"
        using b fresh cur Some by simp
      then show ?thesis
        unfolding run r using a b c Some False by auto
    next
      case True
      let ?ps1 = "updateFirst (\<lambda>d. p_id d = ?x) (purchase (item_quantity it) now) ps"
      let ?ups1 = "ups @ [\<lparr>su_productId = ?x, su_productName = p_name p,
                          su_quantityPurchased = item_quantity it,
                          su_previousStock = p_stock p,
                          su_newStock = p_stock (purchase (item_quantity it) now p)\<rparr>]"
      have curp: "findProductById ?x ps = Some p" using cur Some by simp
      have run: "processItems now (populate ps0 (it # its)) ps ups =
          processItems now (populate ps0 its) ?ps1 ?ups1"
        using Some True curp by (simp add: pop pid Let_def)
      have pre: "\<forall>it' \<in> set its. findProductById (item_product it') ?ps1 =
          findProductById (item_product it') ps0"
      proof
        fix it' assume mem: "it' \<in> set its"
        then have "item_product it' \<noteq> ?x" using fresh by (metis imageI)
        then show "findProductById (item_product it') ?ps1 = findProductById (item_product it') ps0"
          using Cons.prems(2) mem by (simp add: purchase_other)
      qed
      from Cons.IH[OF dist pre, of ?ups1]
      obtain ps' ups' where r: "processItems now (populate ps0 its) ?ps1 ?ups1 = (ps', ups', None)"
        and a: "\<forall>it \<in> set its. \<forall>p. findProductById (item_product it) ps0 = Some p \<longrightarrow>
              map_option p_stock (findProductById (item_product it) ps') =
                Some (if item_quantity it \<le> p_stock p then p_stock p - item_quantity it
                      else p_stock p)"
        and b: "\<forall>x. x \<notin> item_product ` set its \<longrightarrow> findProductById x ps' = findProductById x ?ps1"
        and c: "stocks_nonneg ?ps1 \<longrightarrow> stocks_nonneg ps'"
        by auto
      have here: "findProductById ?x ps' = Some (purchase (item_quantity it) now p)"
        using b fresh purchase_same[OF curp] by simp
      have frame: "\<forall>x. x \<notin> item_product ` set (it # its) \<longrightarrow>
          findProductById x ps' = findProductById x ps"
        using b by (auto simp: purchase_other)
      have nn: "stocks_nonneg ps \<longrightarrow> stocks_nonneg ps'"
        using c purchase_nonneg[OF curp True] by blast
      show ?thesis
        unfolding run r using a here frame nn Some True by (auto simp: purchase_def)
    qed
  qed
qed

lemma processItems_stock:
  assumes "\<forall>x. (findProductById x ps = None) = (findProductById x ps0 = None)"
  shows "\<exists>ps' ups'. processItems now (populate ps0 its) ps ups = (ps', ups', None) \<and>
           (\<forall>x. map_option p_stock (findProductById x ps') =
                 map_option (\<lambda>p. p_stock p - purchased ps0 its x) (findProductById x ps))"
  using assms
proof (induction its arbitrary: ps ups)
  case Nil
  then show ?case by (simp add: populate_def purchased_def option.map_ident)
next
  case (Cons it its)
  let ?x = "item_product it"
  let ?q = "item_quantity it"
  have pop: "populate ps0 (it # its) = (it, findProductById ?x ps0) # populate ps0 its"
    by (simp add: populate_def)
  have sum: "purchased ps0 (it # its) x =
      (if item_product it = x \<and> (case findProductById x ps0 of Some p \<Rightarrow> ?q \<le> p_stock p
                                    | None \<Rightarrow> False) then ?q else 0) + purchased ps0 its x" for x
    by (simp add: purchased_def)
  show ?case
  proof (cases "case findProductById ?x ps0 of Some p \<Rightarrow> ?q \<le> p_stock p | None \<Rightarrow> False")
    case False
    then have run: "processItems now (populate ps0 (it # its)) ps ups =
        processItems now (populate ps0 its) ps ups"
      by (auto simp: pop split: option.splits)
    have same: "purchased ps0 (it # its) x = purchased ps0 its x" for x
      using False by (auto simp: sum)
    show ?thesis
      unfolding run same using Cons.IH[OF Cons.prems] .
  next
    case True
    then obtain p where snap: "findProductById ?x ps0 = Some p" and le: "?q \<le> p_stock p"
      by (auto split: option.splits)
    have pid: "p_id p = ?x" using snap by (rule findProductById_id)
    obtain cur where cur: "findProductById ?x ps = Some cur"
      using Cons.prems snap by (metis option.exhaust option.distinct(1))
    let ?ps1 = "updateFirst (\<lambda>d. p_id d = ?x) (purchase ?q now) ps"
    let ?ups1 = "ups @ [\<lparr>su_productId = ?x, su_productName = p_name p,
                          su_quantityPurchased = ?q, su_previousStock = p_stock p,
                          su_newStock = p_stock (purchase ?q now cur)\<rparr>]"
    have run: "processItems now (populate ps0 (it # its)) ps ups =
        processItems now (populate ps0 its) ?ps1 ?ups1"
      using snap le cur by (simp add: pop pid Let_def)
    have here: "findProductById ?x ?ps1 = Some (purchase ?q now cur)"
      using cur by (rule purchase_same)
    have other: "findProductById y ?ps1 = findProductById y ps" if "y \<noteq> ?x" for y
      using that by (rule purchase_other)
    have agree: "\<forall>y. (findProductById y ?ps1 = None) = (findProductById y ps0 = None)"
    proof
      fix y show "(findProductById y ?ps1 = None) = (findProductById y ps0 = None)"
        using here other[of y] Cons.prems snap by (cases "y = ?x") simp_all
    qed
    from Cons.IH[OF agree, of ?ups1]
    obtain ps' ups' where r: "processItems now (populate ps0 its) ?ps1 ?ups1 = (ps', ups', None)"
      and a: "\<forall>y. map_option p_stock (findProductById y ps') =
                 map_option (\<lambda>p. p_stock p - purchased ps0 its y) (findProductById y ?ps1)"
      by blast
    have "map_option p_stock (findProductById y ps') =
        map_option (\<lambda>p. p_stock p - purchased ps0 (it # its) y) (findProductById y ps)" for y
    proof (cases "y = ?x")
      case True
      then show ?thesis
        using a[rule_format, of y] here cur snap le by (auto simp: sum purchase_def)
    next
      case False
      then show ?thesis
        using a[rule_format, of y] other[of y] by (auto simp: sum)
    qed
    then show ?thesis
      unfolding run r by simp
  qed
qed

lemma handlePaymentSuccess_paid:
  assumes "sid \<noteq> []"
    and "sessions_retrieve stripe sid = Inr session"
    and "ss_payment_status session = ''paid''"
    and "find (\<lambda>c. cart_id c = ss_meta_cartId session \<and> cart_user c = ss_meta_userId session)
           (carts (w_db w)) = Some cart"
    and "processItems now (populate (products (w_db w)) (cart_items cart)) (products (w_db w)) [] =
           (ps', ups', None)"
  shows "handlePaymentSuccess stripe now (Some sid) w =
     (reply 200 (JObj [(''success'', JBool True),
        (''message'', JStr ''Payment successful and order processed''),
        (''sessionId'', JStr sid),
        (''orderId'', JStr (''ECO-'' @ show_nat now)),
        (''stockUpdates'', JArr (map stockUpdateJson ups')),
        (''itemsProcessed'', JNum (of_nat (length ups'))),
        (''totalAmount'', JNum (of_int (ss_amount_total session) / 100)),
        (''currency'', JStr (ss_currency session))]),
      w\<lparr>w_db := (w_db w)\<lparr>products := ps',
          carts := saveCart (cart\<lparr>cart_items := []\<rparr>) (carts (w_db w))\<rparr>\<rparr>)"
  using assms by (simp add: handlePaymentSuccess_def)

text \<open>
  Claim C3, as amended.  On the payment-success callback for a paid session whose cart
  is found, the handler answers 200 with the fabricated order identifier \<open>ECO-\<close>
  followed by the time; no order is stored and no session is created; the cart is
  stored without lines.  The stock of every product is decremented by the quantities
  of the cart lines for it that pass the floor check
  \<open>item.product.stock >= item.quantity\<close>, and by nothing else: a line that asks
  for more than the stock takes nothing.  So when the cart has at most one line per
  product and no stock was negative before the callback, none is negative after it.
\<close>

theorem payment_success_guarded_decrement:
  assumes "sid \<noteq> []"
    and "sessions_retrieve stripe sid = Inr session"
    and "ss_payment_status session = ''paid''"
    and "find (\<lambda>c. cart_id c = ss_meta_cartId session \<and> cart_user c = ss_meta_userId session)
           (carts (w_db w)) = Some cart"
    and "r = fst (handlePaymentSuccess stripe now (Some sid) w)"
    and "w' = snd (handlePaymentSuccess stripe now (Some sid) w)"
  shows "status r = 200 \<and>
         json_field ''orderId'' (body r) = Some (JStr (''ECO-'' @ show_nat now)) \<and>
         orders (w_db w') = orders (w_db w) \<and>
         w_sessions w' = w_sessions w \<and>
         find (\<lambda>c. cart_id c = ss_meta_cartId session \<and> cart_user c = ss_meta_userId session)
           (carts (w_db w')) = Some (cart\<lparr>cart_items := []\<rparr>) \<and>
         (\<forall>x. map_option p_stock (findProductById x (products (w_db w'))) =
               map_option (\<lambda>p. p_stock p - purchased (products (w_db w)) (cart_items cart) x)
                 (findProductById x (products (w_db w)))) \<and>
         (distinct (map item_product (cart_items cart)) \<and> stocks_nonneg (products (w_db w)) \<longrightarrow>
            stocks_nonneg (products (w_db w')))"
proof -
  let ?ps = "products (w_db w)"
  let ?P = "\<lambda>c. cart_id c = ss_meta_cartId session \<and> cart_user c = ss_meta_userId session"
  from processItems_stock[of ?ps ?ps now "cart_items cart" "[]"]
  obtain ps' ups' where run: "processItems now (populate ?ps (cart_items cart)) ?ps [] = (ps', ups', None)"
    and a: "\<forall>x. map_option p_stock (findProductById x ps') =
              map_option (\<lambda>p. p_stock p - purchased ?ps (cart_items cart) x) (findProductById x ?ps)"
    by auto
  have c: "distinct (map item_product (cart_items cart)) \<and> stocks_nonneg ?ps \<longrightarrow> stocks_nonneg ps'"
  proof
    assume d: "distinct (map item_product (cart_items cart)) \<and> stocks_nonneg ?ps"
    from processItems_distinct[of "cart_items cart" ?ps ?ps now "[]"] d
    show "stocks_nonneg ps'"
      by (auto simp: run)
  qed
  note h = handlePaymentSuccess_paid[OF assms(1-4) run]
  have Pc: "?P cart" using find_SomeD[OF assms(4)] by simp
  have c1: "status r = 200"
    by (simp add: assms(5) h reply_def)
  have c2: "json_field ''orderId'' (body r) = Some (JStr (''ECO-'' @ show_nat now))"
    by (simp add: assms(5) h reply_def)
  have c3: "orders (w_db w') = orders (w_db w)" and c4: "w_sessions w' = w_sessions w"
    by (simp_all add: assms(6) h)
  have ps: "products (w_db w') = ps'"
    by (simp add: assms(6) h)
  have "carts (w_db w') = saveCart (cart\<lparr>cart_items := []\<rparr>) (carts (w_db w))"
    by (simp add: assms(6) h)
  then have c5: "find ?P (carts (w_db w')) = Some (cart\<lparr>cart_items := []\<rparr>)"
    using find_saveCart[OF assms(4), of "cart\<lparr>cart_items := []\<rparr>"] Pc by simp
  show ?thesis
    unfolding ps using c1 c2 c3 c4 c5 a c by blast
qed

text \<open>Stock 10 and a line of 3: the stock becomes 7, the cart is emptied.\<close>

lemmas callback_demo = demo_product_def demo_line_def demo_cart_def demo_stripe_def
  demo_world_def

theorem payment_success_guarded_decrement_witness:
  "''cs_1'' \<noteq> [] \<and>
   sessions_retrieve demo_stripe ''cs_1'' = Inr (demo_paid ''cs_1'') \<and>
   ss_payment_status (demo_paid ''cs_1'') = ''paid'' \<and>
   find (\<lambda>c. cart_id c = ss_meta_cartId (demo_paid ''cs_1'') \<and>
              cart_user c = ss_meta_userId (demo_paid ''cs_1''))
     (carts (w_db (demo_world 10 3))) = Some (demo_cart 3) \<and>
   distinct (map item_product (cart_items (demo_cart 3))) \<and>
   stocks_nonneg (products (w_db (demo_world 10 3))) \<and>
   purchased (products (w_db (demo_world 10 3))) (cart_items (demo_cart 3)) ''p1'' = 3 \<and>
   status (fst (handlePaymentSuccess demo_stripe 1700000000000 (Some ''cs_1'') (demo_world 10 3))) = 200 \<and>
   json_field ''orderId''
     (body (fst (handlePaymentSuccess demo_stripe 1700000000000 (Some ''cs_1'') (demo_world 10 3)))) =
     Some (JStr ''ECO-1700000000000'') \<and>
   map_option p_stock (findProductById ''p1''
     (products (w_db (snd (handlePaymentSuccess demo_stripe 1700000000000 (Some ''cs_1'')
                             (demo_world 10 3)))))) = Some 7 \<and>
   stocks_nonneg
     (products (w_db (snd (handlePaymentSuccess demo_stripe 1700000000000 (Some ''cs_1'')
                             (demo_world 10 3)))))"
proof -
  let ?w = "demo_world 10 3"
  let ?s = "demo_paid ''cs_1''"
  let ?w' = "snd (handlePaymentSuccess demo_stripe 1700000000000 (Some ''cs_1'') ?w)"
  have h1: "''cs_1'' \<noteq> []" by simp
  have h2: "sessions_retrieve demo_stripe ''cs_1'' = Inr ?s"
    by (simp add: demo_stripe_def)
  have h3: "ss_payment_status ?s = ''paid''"
    by (simp add: demo_paid_def)
  have h4: "find (\<lambda>c. cart_id c = ss_meta_cartId ?s \<and> cart_user c = ss_meta_userId ?s)
      (carts (w_db ?w)) = Some (demo_cart 3)"
    by (simp add: demo_paid_def callback_demo)
  have h5: "distinct (map item_product (cart_items (demo_cart 3)))"
    by (simp add: callback_demo)
  have nn: "stocks_nonneg (products (w_db ?w))"
    by (simp add: callback_demo stocks_nonneg_def)
  have found: "findProductById ''p1'' (products (w_db ?w)) = Some (demo_product\<lparr>p_stock := 10\<rparr>)"
    by (simp add: callback_demo findProductById_def)
  have taken: "purchased (products (w_db ?w)) (cart_items (demo_cart 3)) ''p1'' = 3"
    by (simp add: purchased_def found) (simp add: callback_demo)
  have sh: "show_nat 1700000000000 = ''1700000000000''"
    by (simp add: show_nat.simps digit_char_def)
  note t = payment_success_guarded_decrement[OF h1 h2 h3 h4 refl refl, of 1700000000000]
  have c1: "status (fst (handlePaymentSuccess demo_stripe 1700000000000 (Some ''cs_1'') ?w)) = 200"
    using t by blast
  have c2: "json_field ''orderId''
      (body (fst (handlePaymentSuccess demo_stripe 1700000000000 (Some ''cs_1'') ?w))) =
      Some (JStr ''ECO-1700000000000'')"
    using t sh by simp
  have all: "\<forall>x. map_option p_stock (findProductById x (products (w_db ?w'))) =
      map_option (\<lambda>p. p_stock p - purchased (products (w_db ?w)) (cart_items (demo_cart 3)) x)
        (findProductById x (products (w_db ?w)))"
    using t by (elim conjE)
  have c3: "map_option p_stock (findProductById ''p1'' (products (w_db ?w'))) = Some 7"
    using all[rule_format, of "''p1''"] found taken by simp
  have c4: "stocks_nonneg (products (w_db ?w'))"
    using t h5 nn by blast
  show ?thesis
    using h1 h2 h3 h4 h5 nn taken c1 c2 c3 c4 by blast
qed

text \<open>
  The claim as stated, a decrement of each product's stock by the purchased quantity
  with no floor check, fails: with stock 3 and a line of 5 the callback answers 200
  and empties the cart, and the stock is still 3, not -2.
\<close>

theorem payment_success_counterexample:
  "cart_items (demo_cart 5) = [demo_line 5] \<and> item_quantity (demo_line 5) = 5 \<and>
   map p_stock (products (w_db (demo_world 3 5))) = [3] \<and>
   status (fst (handlePaymentSuccess demo_stripe 0 (Some ''cs_1'') (demo_world 3 5))) = 200 \<and>
   carts (w_db (snd (handlePaymentSuccess demo_stripe 0 (Some ''cs_1'') (demo_world 3 5)))) =
     [\<lparr>cart_id = ''c1'', cart_user = ''u1'', cart_items = []\<rparr>] \<and>
   map p_stock (products (w_db (snd (handlePaymentSuccess demo_stripe 0 (Some ''cs_1'')
                                       (demo_world 3 5))))) = [3]"
  by (simp add: callback_demo demo_paid_def handlePaymentSuccess_def populate_def findProductById_def
        saveCart_def reply_def)

section \<open>Properties of authentication\<close>

subsection \<open>Registration\<close>

lemma register_created:
  assumes "status (fst (register cr userSchema newId b db)) = 200"
  shows "\<exists>username password.
           rb_username b = Some username \<and> rb_password b = Some password \<and>
           find (\<lambda>u. u_username u = username) (users db) = None \<and>
           users (snd (register cr userSchema newId b db)) =
             users db @ [\<lparr>u_id = newId, u_username = username, u_password = hashSync cr password,
                          u_role = role_or_user (rb_role b)\<rparr>] \<and>
           json_field ''role'' (body (fst (register cr userSchema newId b db))) =
             Some (JStr (role_or_user (rb_role b)))"
  using assms
  by (auto simp: register_def Let_def reply_def role_or_user_def
           split: option.splits if_splits prod.splits)

lemma register_accepts:
  assumes "rb_username b = Some username" "rb_password b = Some password"
    and "username \<noteq> []" "password \<noteq> []"
    and "find (\<lambda>u. u_username u = username) (users db) = None"
    and "userSchema \<lparr>u_id = newId, u_username = username, u_password = hashSync cr password,
                      u_role = role_or_user (rb_role b)\<rparr> = None"
  shows "status (fst (register cr userSchema newId b db)) = 200"
  using assms by (simp add: register_def Let_def reply_def role_or_user_def)

lemma registerRoute_200:
  "status (fst (registerRoute cr userSchema newId b db)) = 200 \<Longrightarrow>
     registerRoute cr userSchema newId b db = register cr userSchema newId b db"
  by (auto simp: registerRoute_def validateAuth_def reply_def split: option.splits if_splits prod.splits)

text \<open>
  Claim C4.  Whenever the register endpoint answers 200, the request named a username
  no stored user has, and exactly one user is stored in addition, under that username
  and with the role \<open>role || "user"\<close>: the role of the request body when it is
  supplied and not empty, whatever it is, and \<open>user\<close> when it is absent or empty.
  The answer reports that role.  A request that passes \<open>validateAuth\<close>, names a
  free username and is accepted by the User model is answered 200.  So a caller who
  supplies the role \<open>admin\<close> creates an administrator; the endpoint asks for no
  authentication.
\<close>

theorem register_role_from_body:
  "(status (fst (registerRoute cr userSchema newId b db)) = 200 \<longrightarrow>
      (\<exists>username password.
          rb_username b = Some username \<and> rb_password b = Some password \<and>
          find (\<lambda>u. u_username u = username) (users db) = None \<and>
          users (snd (registerRoute cr userSchema newId b db)) =
            users db @ [\<lparr>u_id = newId, u_username = username, u_password = hashSync cr password,
                         u_role = role_or_user (rb_role b)\<rparr>] \<and>
          json_field ''role'' (body (fst (registerRoute cr userSchema newId b db))) =
            Some (JStr (role_or_user (rb_role b))))) \<and>
   (validateAuth b = None \<and> rb_username b = Some name \<and> rb_password b = Some pw \<and>
    find (\<lambda>u. u_username u = name) (users db) = None \<and>
    userSchema \<lparr>u_id = newId, u_username = name, u_password = hashSync cr pw,
                 u_role = role_or_user (rb_role b)\<rparr> = None \<longrightarrow>
      status (fst (registerRoute cr userSchema newId b db)) = 200) \<and>
   role_or_user (Some ''admin'') = ''admin'' \<and>
   (role \<noteq> [] \<longrightarrow> role_or_user (Some role) = role) \<and>
   role_or_user None = ''user'' \<and> role_or_user (Some []) = ''user''"
proof -
  have created: "status (fst (registerRoute cr userSchema newId b db)) = 200 \<longrightarrow>
      (\<exists>username password.
          rb_username b = Some username \<and> rb_password b = Some password \<and>
          find (\<lambda>u. u_username u = username) (users db) = None \<and>
          users (snd (registerRoute cr userSchema newId b db)) =
            users db @ [\<lparr>u_id = newId, u_username = username, u_password = hashSync cr password,
                         u_role = role_or_user (rb_role b)\<rparr>] \<and>
          json_field ''role'' (body (fst (registerRoute cr userSchema newId b db))) =
            Some (JStr (role_or_user (rb_role b))))"
  proof
    assume ok: "status (fst (registerRoute cr userSchema newId b db)) = 200"
    note same = registerRoute_200[OF ok]
    show "\<exists>username password.
          rb_username b = Some username \<and> rb_password b = Some password \<and>
          find (\<lambda>u. u_username u = username) (users db) = None \<and>
          users (snd (registerRoute cr userSchema newId b db)) =
            users db @ [\<lparr>u_id = newId, u_username = username, u_password = hashSync cr password,
                         u_role = role_or_user (rb_role b)\<rparr>] \<and>
          json_field ''role'' (body (fst (registerRoute cr userSchema newId b db))) =
            Some (JStr (role_or_user (rb_role b)))"
      unfolding same using ok register_created[of cr userSchema newId b db] by (simp add: same)
  qed
  have accepted: "validateAuth b = None \<and> rb_username b = Some name \<and> rb_password b = Some pw \<and>
      find (\<lambda>u. u_username u = name) (users db) = None \<and>
      userSchema \<lparr>u_id = newId, u_username = name, u_password = hashSync cr pw,
                   u_role = role_or_user (rb_role b)\<rparr> = None \<longrightarrow>
      status (fst (registerRoute cr userSchema newId b db)) = 200"
  proof
    assume h: "validateAuth b = None \<and> rb_username b = Some name \<and> rb_password b = Some pw \<and>
      find (\<lambda>u. u_username u = name) (users db) = None \<and>
      userSchema \<lparr>u_id = newId, u_username = name, u_password = hashSync cr pw,
                   u_role = role_or_user (rb_role b)\<rparr> = None"
    then have ne: "name \<noteq> [] \<and> pw \<noteq> []"
      by (auto simp: validateAuth_def split: if_splits)
    show "status (fst (registerRoute cr userSchema newId b db)) = 200"
      using h ne register_accepts[of b name pw db userSchema newId cr]
      by (simp add: registerRoute_def)
  qed
  have roles: "role_or_user (Some ''admin'') = ''admin'' \<and>
      (role \<noteq> [] \<longrightarrow> role_or_user (Some role) = role) \<and>
      role_or_user None = ''user'' \<and> role_or_user (Some []) = ''user''"
    by (simp add: role_or_user_def)
  show ?thesis
    using created accepted roles by blast
qed

text \<open>A caller registers \<open>mallory1\<close> with the role \<open>admin\<close>.\<close>

lemmas register_demo = demo_crypto_def demo_schema_def demo_alice_def demo_users_def

theorem register_role_from_body_witness:
  "status (fst (registerRoute demo_crypto demo_schema ''m1''
      \<lparr>rb_username = Some ''mallory1'', rb_password = Some ''letmein1'', rb_role = Some ''admin''\<rparr>
      demo_users)) = 200 \<and>
   users (snd (registerRoute demo_crypto demo_schema ''m1''
      \<lparr>rb_username = Some ''mallory1'', rb_password = Some ''letmein1'', rb_role = Some ''admin''\<rparr>
      demo_users)) =
     [demo_alice, \<lparr>u_id = ''m1'', u_username = ''mallory1'', u_password = ''#letmein1'',
                   u_role = ''admin''\<rparr>]"
proof -
  let ?b = "\<lparr>rb_username = Some ''mallory1'', rb_password = Some ''letmein1'',
             rb_role = Some ''admin''\<rparr>"
  have v: "validateAuth ?b = None"
    by (simp add: validateAuth_def isLength_def isAlphanumeric_def)
  have f: "find (\<lambda>u. u_username u = ''mallory1'') (users demo_users) = None"
    by (simp add: register_demo)
  have s: "demo_schema \<lparr>u_id = ''m1'', u_username = ''mallory1'',
      u_password = hashSync demo_crypto ''letmein1'', u_role = role_or_user (rb_role ?b)\<rparr> = None"
    by (simp add: register_demo role_or_user_def)
  note t = register_role_from_body[of demo_crypto demo_schema "''m1''" ?b demo_users
      "''mallory1''" "''letmein1''"]
  have ok: "status (fst (registerRoute demo_crypto demo_schema ''m1'' ?b demo_users)) = 200"
    using t v f s by simp
  have "\<exists>username password.
      rb_username ?b = Some username \<and> rb_password ?b = Some password \<and>
      users (snd (registerRoute demo_crypto demo_schema ''m1'' ?b demo_users)) =
        users demo_users @ [\<lparr>u_id = ''m1'', u_username = username,
           u_password = hashSync demo_crypto password, u_role = role_or_user (rb_role ?b)\<rparr>]"
    using t ok by blast
  then have "users (snd (registerRoute demo_crypto demo_schema ''m1'' ?b demo_users)) =
      [demo_alice, \<lparr>u_id = ''m1'', u_username = ''mallory1'', u_password = ''#letmein1'',
                    u_role = ''admin''\<rparr>]"
    by (simp add: register_demo role_or_user_def)
  with ok show ?thesis by blast
qed

subsection \<open>Changing the password\<close>

lemma checkNewPassword_same:
  "pb_currentPassword b = pb_newPassword b \<Longrightarrow>
     \<exists>r. checkNewPassword b = Some r \<and> status r = 400"
  by (auto simp: checkNewPassword_def reply_def split: option.splits)

text \<open>
  Claim C10.  A change-password request whose current and new password are the same
  value (also when both are missing) is answered 400 by the middleware in front of the
  controller: the answer is the middleware's own, so the controller, its hash
  comparison and its update are not reached, and the database is unchanged.
\<close>

theorem same_password_rejected:
  assumes "pb_currentPassword b = pb_newPassword b"
  shows "\<exists>r. checkNewPassword b = Some r \<and> status r = 400 \<and>
             changePasswordRoute cr userId b db = (r, db)"
  using checkNewPassword_same[OF assms] by (auto simp: changePasswordRoute_def)

theorem same_password_rejected_witness:
  "pb_currentPassword \<lparr>pb_currentPassword = Some ''secret1'', pb_newPassword = Some ''secret1''\<rparr> =
     pb_newPassword \<lparr>pb_currentPassword = Some ''secret1'', pb_newPassword = Some ''secret1''\<rparr> \<and>
   changePasswordRoute demo_crypto ''a1''
     \<lparr>pb_currentPassword = Some ''secret1'', pb_newPassword = Some ''secret1''\<rparr> demo_users =
     (reply 400 (error_json ''New password must be different from current password''), demo_users)"
proof -
  let ?b = "\<lparr>pb_currentPassword = Some ''secret1'', pb_newPassword = Some ''secret1''\<rparr>"
  have h: "pb_currentPassword ?b = pb_newPassword ?b" by simp
  have c: "checkNewPassword ?b =
      Some (reply 400 (error_json ''New password must be different from current password''))"
    by (simp add: checkNewPassword_def)
  show ?thesis
    using same_password_rejected[OF h, of demo_crypto "''a1''" demo_users] h c by simp
qed

subsection \<open>The account lockout\<close>



lemma not_invalid_400: "status r = 400 \<Longrightarrow> \<not> invalid_credentials r"
  by (simp add: invalid_credentials_def)



















section \<open>Properties of the product controller\<close>









end
